theory Spec2Isabelle
  imports Complex_Main "HOL-Library.Sublist"
begin

section \<open>JavaScript numbers\<close>

text \<open>
  A JavaScript number is an IEEE-754 double: a finite value, an infinity or NaN. A
  finite double is kept as the real number it denotes; the sign of zero is not kept (no
  computation of the components can tell the two zeros apart: they print alike, and no
  division ever has a zero divisor).
\<close>

datatype jsnum = Num real | PosInf | NegInf | NaN

text \<open>The power \<open>2\<^sup>j\<close> for an integer exponent.\<close>

definition pow2 :: "int \<Rightarrow> real" where
  "pow2 j = (if 0 \<le> j then 2 ^ nat j else 1 / 2 ^ nat (- j))"

text \<open>Rounding to the nearest integer, a tie going to the even one.\<close>

definition round_half_even :: "real \<Rightarrow> int" where
  "round_half_even r =
     (let f = \<lfloor>r\<rfloor>; d = r - of_int f
      in if d < 1 / 2 then f
         else if 1 / 2 < d then f + 1
         else if even f then f else f + 1)"

text \<open>
  The exponent of the binade of \<open>x\<close>: the largest \<open>e\<close> from 1023 down to \<open>-1021\<close> with
  \<open>2\<^sup>e \<le> \<bar>x\<bar>\<close>, and \<open>-1022\<close>, the exponent the subnormal numbers share, below that.
\<close>

fun binade_from :: "nat \<Rightarrow> int \<Rightarrow> real \<Rightarrow> int" where
  "binade_from 0 e a = e"
| "binade_from (Suc n) e a = (if pow2 e \<le> a then e else binade_from n (e - 1) a)"

definition binade :: "real \<Rightarrow> int" where
  "binade x = binade_from 2045 1023 \<bar>x\<bar>"

text \<open>
  The double an exact result is rounded to (binary64, round to nearest, ties to even):
  the result is a multiple of the unit in the last place of its binade, 53 bits wide,
  and a result that rounds to \<open>2\<^sup>1\<^sup>0\<^sup>2\<^sup>4\<close> or beyond overflows to an infinity.
\<close>

definition fl :: "real \<Rightarrow> jsnum" where
  "fl x =
     (if x = 0 then Num 0
      else
        let ulp = pow2 (binade x - 52);
            y = of_int (round_half_even (x / ulp)) * ulp
        in if pow2 1024 \<le> \<bar>y\<bar> then (if 0 < x then PosInf else NegInf)
           else Num y)"


fun is_neg :: "jsnum \<Rightarrow> bool" where
  "is_neg (Num a) = (a < 0)"
| "is_neg NegInf = True"
| "is_neg PosInf = False"
| "is_neg NaN = False"

text \<open>The operators \<^verbatim>\<open>-\<close>, \<^verbatim>\<open>*\<close> and \<^verbatim>\<open>/\<close> on numbers.\<close>

fun jsub :: "jsnum \<Rightarrow> jsnum \<Rightarrow> jsnum" where
  "jsub NaN y = NaN"
| "jsub x NaN = NaN"
| "jsub (Num a) (Num b) = fl (a - b)"
| "jsub (Num a) PosInf = NegInf"
| "jsub (Num a) NegInf = PosInf"
| "jsub PosInf PosInf = NaN"
| "jsub PosInf y = PosInf"
| "jsub NegInf NegInf = NaN"
| "jsub NegInf y = NegInf"

fun jmul :: "jsnum \<Rightarrow> jsnum \<Rightarrow> jsnum" where
  "jmul NaN y = NaN"
| "jmul x NaN = NaN"
| "jmul (Num a) (Num b) = fl (a * b)"
| "jmul x y =
     (if x = Num 0 \<or> y = Num 0 then NaN
      else if is_neg x = is_neg y then PosInf else NegInf)"

fun jdiv :: "jsnum \<Rightarrow> jsnum \<Rightarrow> jsnum" where
  "jdiv NaN y = NaN"
| "jdiv x NaN = NaN"
| "jdiv (Num a) (Num b) =
     (if b = 0 then (if a = 0 then NaN else if a < 0 then NegInf else PosInf)
      else fl (a / b))"
| "jdiv (Num a) y = Num 0"
| "jdiv x (Num b) = (if is_neg x = (b < 0) then PosInf else NegInf)"
| "jdiv x y = NaN"

text \<open>The comparison \<^verbatim>\<open><\<close>: false whenever an operand is NaN.\<close>

fun jless :: "jsnum \<Rightarrow> jsnum \<Rightarrow> bool" where
  "jless (Num a) (Num b) = (a < b)"
| "jless NegInf NegInf = False"
| "jless NegInf y = (y \<noteq> NaN)"
| "jless x PosInf = (x \<noteq> NaN \<and> x \<noteq> PosInf)"
| "jless x y = False"

text \<open>
  A property of a JSON object read as a number: the number, or \<^verbatim>\<open>undefined\<close> (\<open>None\<close>)
  when the property is absent. \<open>ToNumber\<close> is the conversion the arithmetic operators
  and \<^verbatim>\<open>Math.min\<close> apply to their operands. Properties holding a string, a boolean,
  \<^verbatim>\<open>null\<close> or an object are not modelled.
\<close>

definition ToNumber :: "jsnum option \<Rightarrow> jsnum" where
  "ToNumber v = (case v of None \<Rightarrow> NaN | Some n \<Rightarrow> n)"

text \<open>
  \<^verbatim>\<open>Math.min(...vals)\<close> and \<^verbatim>\<open>Math.max(...vals)\<close>: NaN as soon as one argument converts
  to NaN, and \<^verbatim>\<open>Infinity\<close> and \<^verbatim>\<open>-Infinity\<close> for no argument at all.
\<close>

definition jmin :: "jsnum \<Rightarrow> jsnum \<Rightarrow> jsnum" where
  "jmin acc v = (if acc = NaN \<or> v = NaN then NaN else if jless v acc then v else acc)"

definition jmax :: "jsnum \<Rightarrow> jsnum \<Rightarrow> jsnum" where
  "jmax acc v = (if acc = NaN \<or> v = NaN then NaN else if jless acc v then v else acc)"

definition Math_min :: "jsnum option list \<Rightarrow> jsnum" where
  "Math_min vs = fold (\<lambda>v acc. jmin acc (ToNumber v)) vs PosInf"

definition Math_max :: "jsnum option list \<Rightarrow> jsnum" where
  "Math_max vs = fold (\<lambda>v acc. jmax acc (ToNumber v)) vs NegInf"

section \<open>Data model\<close>

text \<open>
  A reading is one element of the JSON array a device's file holds:
  \<^verbatim>\<open>{ts, temperature, humidity, illu, light}\<close>. \<^verbatim>\<open>response.json()\<close> hands the parsed
  objects on unchecked, so each of the four measurements is a number (a JSON number
  beyond the largest double parses to an infinity) or is absent.
\<close>

record reading =
  ts :: string
  temperature :: "jsnum option"
  humidity :: "jsnum option"
  illu :: "jsnum option"
  light :: "jsnum option"

text \<open>
  An entry of \<^verbatim>\<open>SENSEBOXES\<close>, and of the \<^verbatim>\<open>boxes\<close> state once
  \<^verbatim>\<open>{ ...box, readings }\<close> has added the readings. A catalog entry has no
  \<^verbatim>\<open>readings\<close> property: \<open>None\<close> stands for \<^verbatim>\<open>undefined\<close> (and for a
  JSON \<^verbatim>\<open>null\<close> body). The coordinates are only handed to the map, never computed with.
\<close>

record box =
  box_id :: nat
  box_name :: string
  position :: "real \<times> real"
  box_file :: string
  readings :: "reading list option"

definition BASE_URL :: string where
  "BASE_URL = ''https://tmdt-solid-community-server.de/iotworkshop/public''"

definition SENSEBOXES :: "box list" where
  "SENSEBOXES =
    [\<lparr>box_id = 0, box_name = ''SenseBox 0'', position = (51.25249146683472, 7.128714956019335),
       box_file = ''sensebox0.json'', readings = None\<rparr>,
     \<lparr>box_id = 1, box_name = ''SenseBox 1'', position = (51.25234545733288, 7.128517708781204),
       box_file = ''sensebox1.json'', readings = None\<rparr>,
     \<lparr>box_id = 2, box_name = ''SenseBox 2'', position = (51.25247128668728, 7.128386842825138),
       box_file = ''sensebox2.json'', readings = None\<rparr>,
     \<lparr>box_id = 3, box_name = ''SenseBox 3'', position = (51.252534201235335, 7.1285670205907365),
       box_file = ''sensebox3.json'', readings = None\<rparr>,
     \<lparr>box_id = 4, box_name = ''SenseBox 4'', position = (51.2523240900498, 7.1288515117995805),
       box_file = ''sensebox4.json'', readings = None\<rparr>]"

section \<open>Array helpers of the language\<close>

text \<open>
  \<^verbatim>\<open>Array.prototype.slice(start)\<close> with an integer argument: a negative start counts
  from the end and is clamped at 0, a start beyond the end gives the empty array.
\<close>

definition js_slice :: "int \<Rightarrow> 'a list \<Rightarrow> 'a list" where
  "js_slice start xs =
     (let len = int (length xs);
          k = (if start < 0 then max (len + start) 0 else min start len)
      in drop (nat k) xs)"

text \<open>\<^verbatim>\<open>xs[xs.length - 1]\<close>: the last element, \<^verbatim>\<open>undefined\<close> on the empty array.\<close>

definition last_elem :: "'a list \<Rightarrow> 'a option" where
  "last_elem xs = (if xs = [] then None else Some (xs ! (length xs - 1)))"

section \<open>SenseboxPopup: the projection of a box\<close>

text \<open>\<^verbatim>\<open>const hasData = box.readings && box.readings.length > 0;\<close>\<close>

definition hasData :: "box \<Rightarrow> bool" where
  "hasData b = (case readings b of None \<Rightarrow> False | Some rs \<Rightarrow> length rs > 0)"

text \<open>
  \<^verbatim>\<open>const latest = hasData ? box.readings[box.readings.length - 1] : null;\<close>
  Where \<open>hasData\<close> holds the readings are an array, so \<open>the\<close> is applied to \<open>Some\<close> only.
\<close>

definition latest :: "box \<Rightarrow> reading option" where
  "latest b = (if hasData b then last_elem (the (readings b)) else None)"

text \<open>\<^verbatim>\<open>const history = hasData ? box.readings.slice(-20) : [];\<close> (App.jsx)\<close>

definition history :: "box \<Rightarrow> reading list" where
  "history b = (if hasData b then js_slice (- 20) (the (readings b)) else [])"

text \<open>
  \<^verbatim>\<open>const recent = hasData ? [...box.readings.slice(-5)].reverse() : [];\<close>
  (the list popup, the second copy of the component)
\<close>

definition recent :: "box \<Rightarrow> reading list" where
  "recent b = (if hasData b then rev (js_slice (- 5) (the (readings b))) else [])"

section \<open>Library functions taken as parameters\<close>

text \<open>
  The date library and the number formatting of the runtime are not part of the
  repository; the components take them as a parameter.
  \<^item> \<open>format_iso t p\<close> is \<^verbatim>\<open>format(parseISO(t), p)\<close>: the text, or \<open>None\<close> when
    \<^verbatim>\<open>format\<close> throws its RangeError on an invalid date;
  \<^item> \<open>toFixed v d\<close> is \<^verbatim>\<open>v.toFixed(d)\<close> for a number \<open>v\<close>;
  \<^item> \<open>num_text v\<close> is the text of a number inside a template literal.
\<close>

record lib =
  format_iso :: "string \<Rightarrow> string \<Rightarrow> string option"
  toFixed :: "jsnum \<Rightarrow> nat \<Rightarrow> string"
  num_text :: "jsnum \<Rightarrow> string"

text \<open>
  What a render can throw: the RangeError of \<^verbatim>\<open>format\<close>, and the TypeError of a
  method call on \<^verbatim>\<open>undefined\<close>.
\<close>

datatype js_error = RangeError | TypeError

text \<open>Evaluating a list of fallible renders in order; the first throw wins.\<close>

fun in_order :: "('e + 'a) list \<Rightarrow> 'e + 'a list" where
  "in_order [] = Inr []"
| "in_order (Inl e # rest) = Inl e"
| "in_order (Inr v # rest) = (case in_order rest of Inl e \<Rightarrow> Inl e | Inr vs \<Rightarrow> Inr (v # vs))"

section \<open>LineChart\<close>

datatype value_key = Key_temperature | Key_humidity | Key_illu | Key_light

fun key_name :: "value_key \<Rightarrow> string" where
  "key_name Key_temperature = ''temperature''"
| "key_name Key_humidity = ''humidity''"
| "key_name Key_illu = ''illu''"
| "key_name Key_light = ''light''"

text \<open>\<^verbatim>\<open>entry[valueKey]\<close>\<close>

fun entry_value :: "reading \<Rightarrow> value_key \<Rightarrow> jsnum option" where
  "entry_value entry Key_temperature = temperature entry"
| "entry_value entry Key_humidity = humidity entry"
| "entry_value entry Key_illu = illu entry"
| "entry_value entry Key_light = light entry"

definition chart_width :: jsnum where
  "chart_width = Num 280"

definition chart_height :: jsnum where
  "chart_height = Num 120"

text \<open>\<^verbatim>\<open>const normalized = range === 0 ? 0.5 : (value - minValue) / range;\<close>\<close>

definition normalized :: "jsnum \<Rightarrow> jsnum \<Rightarrow> jsnum option \<Rightarrow> jsnum" where
  "normalized rng minValue v =
     (if rng = Num 0 then Num (1 / 2) else jdiv (jsub (ToNumber v) minValue) rng)"

text \<open>
  The callback of \<^verbatim>\<open>vals.map((value, index) => ...)\<close>, with the coordinates kept as
  a pair; \<open>n\<close> is \<^verbatim>\<open>values.length\<close> and \<open>rng\<close> is \<^verbatim>\<open>range\<close>. The index and
  \<^verbatim>\<open>Math.max(values.length - 1, 1)\<close> are integers, computed exactly.
\<close>

definition plot_point ::
  "nat \<Rightarrow> jsnum \<Rightarrow> jsnum \<Rightarrow> nat \<Rightarrow> jsnum option \<Rightarrow> jsnum \<times> jsnum" where
  "plot_point n minValue rng index v =
     (let x = jmul (jdiv (Num (real index)) (Num (real_of_int (max (int n - 1) 1)))) chart_width;
          y = jsub chart_height (jmul (normalized rng minValue v) chart_height)
      in (x, y))"

definition plot_points :: "jsnum option list \<Rightarrow> (jsnum \<times> jsnum) list" where
  "plot_points vals =
     (let minValue = Math_min vals;
          maxValue = Math_max vals;
          rng = jsub maxValue minValue
      in map (\<lambda>(index, v). plot_point (length vals) minValue rng index v)
           (zip [0..<length vals] vals))"

text \<open>
  The \<^verbatim>\<open>points\<close> attribute: each pair printed as x, a comma, y, and the texts joined
  by \<^verbatim>\<open>.join(' ')\<close>.
\<close>

fun join_space :: "string list \<Rightarrow> string" where
  "join_space [] = []"
| "join_space [s] = s"
| "join_space (s # rest) = s @ '' '' @ join_space rest"

definition points_attr :: "lib \<Rightarrow> (jsnum \<times> jsnum) list \<Rightarrow> string" where
  "points_attr L pts = join_space (map (\<lambda>(x, y). num_text L x @ '','' @ num_text L y) pts)"

text \<open>\<^verbatim>\<open>s.slice(from, to)\<close> on a string, for \<open>0 \<le> from \<le> to\<close>.\<close>

definition str_slice :: "nat \<Rightarrow> nat \<Rightarrow> string \<Rightarrow> string" where
  "str_slice from to s = take (to - from) (drop from s)"

text \<open>
  \<^verbatim>\<open>useRef(initial).current\<close>: the hook's cell is \<open>None\<close> on the first render of a
  component instance and holds the first render's initial value afterwards.
\<close>

definition useRef :: "'a option \<Rightarrow> 'a \<Rightarrow> 'a" where
  "useRef cell initial = (case cell of None \<Rightarrow> initial | Some current \<Rightarrow> current)"

record chart =
  header_label :: string
  header_value :: string
  gradientId :: string
  stroke :: string
  polyline_points :: string
  footer_first :: string
  footer_min :: string
  footer_max :: string
  footer_last :: string

text \<open>
  One render of LineChart. \<open>cell\<close> is the hook's cell before the render and \<open>rnd\<close>
  the text \<^verbatim>\<open>Math.random().toString(36)\<close> has at this render; the result is the
  rendered chart (\<open>None\<close> for \<^verbatim>\<open>null\<close>) and the cell after the render. The early
  return on empty data comes before the hook, so that render keeps no cell. The
  formatter is applied to the latest value as it stands in the entry, and to the
  numbers \<^verbatim>\<open>minValue\<close> and \<^verbatim>\<open>maxValue\<close>; the throws come in the order of the source: the
  two labels, then the header value, then the footer.
\<close>

definition LineChart ::
  "lib \<Rightarrow> string option \<Rightarrow> string \<Rightarrow> reading list \<Rightarrow> value_key \<Rightarrow> string \<Rightarrow> string \<Rightarrow>
     (jsnum option \<Rightarrow> js_error + string) \<Rightarrow> js_error + (chart option \<times> string option)" where
  "LineChart L cell rnd data valueKey color label valueFormatter =
     (if data = [] then Inr (None, None)
      else
        let vals = map (\<lambda>entry. entry_value entry valueKey) data;
            minValue = Math_min vals;
            maxValue = Math_max vals;
            gradientId = useRef cell (''gradient-'' @ key_name valueKey @ ''-'' @ str_slice 2 9 rnd);
            pts = points_attr L (plot_points vals);
            latestValue = vals ! (length vals - 1)
        in case format_iso L (ts (data ! 0)) ''HH:mm'' of
             None \<Rightarrow> Inl RangeError
           | Some firstLabel \<Rightarrow>
               (case format_iso L (ts (data ! (length data - 1))) ''HH:mm'' of
                  None \<Rightarrow> Inl RangeError
                | Some lastLabel \<Rightarrow>
                    (case valueFormatter latestValue of
                       Inl e \<Rightarrow> Inl e
                     | Inr latestText \<Rightarrow>
                         (case valueFormatter (Some minValue) of
                            Inl e \<Rightarrow> Inl e
                          | Inr minText \<Rightarrow>
                              (case valueFormatter (Some maxValue) of
                                 Inl e \<Rightarrow> Inl e
                               | Inr maxText \<Rightarrow>
                                   Inr (Some \<lparr>header_label = label,
                                              header_value = latestText,
                                              gradientId = gradientId,
                                              stroke = color,
                                              polyline_points = pts,
                                              footer_first = firstLabel,
                                              footer_min = minText,
                                              footer_max = maxText,
                                              footer_last = lastLabel\<rparr>,
                                        Some gradientId))))))"

section \<open>SenseboxPopup: rendering\<close>

definition degree_C :: string where
  "degree_C = [CHR 0x20, CHR 0xC2, CHR 0xB0, CHR ''C'']"

definition label_illu :: string where
  "label_illu = ''Beleuchtungsst'' @ [CHR 0xC3, CHR 0xA4] @ ''rke''"

definition no_data_text :: string where
  "no_data_text = ''Keine Daten verf'' @ [CHR 0xC3, CHR 0xBC] @ ''gbar.''"

text \<open>
  The four \<^verbatim>\<open>valueFormatter\<close> closures, which are also the expressions that format
  the metrics. \<^verbatim>\<open>toFixed\<close> on an absent value throws a TypeError; the template
  literal of the illuminance prints \<^verbatim>\<open>undefined\<close> instead.
\<close>

fun valueFormatter :: "lib \<Rightarrow> value_key \<Rightarrow> jsnum option \<Rightarrow> js_error + string" where
  "valueFormatter L Key_temperature None = Inl TypeError"
| "valueFormatter L Key_temperature (Some v) = Inr (toFixed L v 1 @ degree_C)"
| "valueFormatter L Key_humidity None = Inl TypeError"
| "valueFormatter L Key_humidity (Some v) = Inr (toFixed L v 1 @ '' %'')"
| "valueFormatter L Key_illu None = Inr ''undefined lx''"
| "valueFormatter L Key_illu (Some v) = Inr (num_text L v @ '' lx'')"
| "valueFormatter L Key_light None = Inl TypeError"
| "valueFormatter L Key_light (Some v) = Inr (toFixed L v 2 @ '' V'')"

fun chart_label :: "value_key \<Rightarrow> string" where
  "chart_label Key_temperature = ''Temperatur''"
| "chart_label Key_humidity = ''Luftfeuchtigkeit''"
| "chart_label Key_illu = label_illu"
| "chart_label Key_light = ''Licht''"

fun chart_color :: "value_key \<Rightarrow> string" where
  "chart_color Key_temperature = ''#ef4444''"
| "chart_color Key_humidity = ''#3b82f6''"
| "chart_color Key_illu = ''#22c55e''"
| "chart_color Key_light = ''#f59e0b''"

definition chart_keys :: "value_key list" where
  "chart_keys = [Key_temperature, Key_humidity, Key_illu, Key_light]"

datatype popup_body =
    Measurements string "(string \<times> string) list" "chart option list"
  | NoData string

record popup =
  title :: string
  body :: popup_body

text \<open>
  One render of SenseboxPopup with its four charts. \<open>cells\<close> holds the hook cell of
  each chart instance, \<open>rnd\<close> the random text each chart draws at this render. The
  timestamp is formatted first, then the four metrics, then the charts render in
  order. The no-data branch renders no chart, so the chart instances and their cells
  are gone after it.
\<close>

definition SenseboxPopup ::
  "lib \<Rightarrow> (value_key \<Rightarrow> string option) \<Rightarrow> (value_key \<Rightarrow> string) \<Rightarrow> box \<Rightarrow>
     js_error + (popup \<times> (value_key \<Rightarrow> string option))" where
  "SenseboxPopup L cells rnd b =
     (case latest b of
        None \<Rightarrow> Inr (\<lparr>title = box_name b, body = NoData no_data_text\<rparr>, (\<lambda>k. None))
      | Some l \<Rightarrow>
          (case format_iso L (ts l) ''dd.MM.yyyy HH:mm:ss'' of
             None \<Rightarrow> Inl RangeError
           | Some stamp \<Rightarrow>
               (case in_order (map (\<lambda>k. valueFormatter L k (entry_value l k)) chart_keys) of
                  Inl e \<Rightarrow> Inl e
                | Inr metrics \<Rightarrow>
                    (case in_order
                            (map (\<lambda>k. LineChart L (cells k) (rnd k) (history b) k
                                         (chart_color k) (chart_label k) (valueFormatter L k))
                               chart_keys) of
                       Inl e \<Rightarrow> Inl e
                     | Inr rendered \<Rightarrow>
                         Inr (\<lparr>title = box_name b,
                               body = Measurements (''Letzte Messung: '' @ stamp @ '' Uhr'')
                                        (zip (map chart_label chart_keys) metrics)
                                        (map fst rendered)\<rparr>,
                              (\<lambda>k. case map_of (zip chart_keys (map snd rendered)) k of
                                      None \<Rightarrow> None
                                    | Some cell \<Rightarrow> cell))))))"

section \<open>One device's fetch\<close>

text \<open>
  What the network answers to \<^verbatim>\<open>fetch(url, { cache: 'no-store' })\<close> during one
  cycle: the promise rejects with an error (its message), or resolves with a response,
  of which the component reads \<^verbatim>\<open>response.ok\<close> and \<^verbatim>\<open>response.json()\<close>. The body
  parses to the readings, or \<^verbatim>\<open>json()\<close> rejects with an error (its message).
\<close>

datatype body = Json "reading list option" | Malformed string

datatype fetched = Rejected string | Response bool body

type_synonym network = "string \<Rightarrow> fetched"

text \<open>
  The async callback of \<^verbatim>\<open>SENSEBOXES.map\<close>: \<open>Inl\<close> is the message of the error
  the promise rejects with, \<open>Inr\<close> the box \<^verbatim>\<open>{ ...box, readings }\<close> it resolves to.
\<close>

definition load_box :: "network \<Rightarrow> box \<Rightarrow> string + box" where
  "load_box net b =
     (case net (BASE_URL @ ''/'' @ box_file b) of
        Rejected msg \<Rightarrow> Inl msg
      | Response ok bd \<Rightarrow>
          if \<not> ok then Inl (''Fehler beim Laden von '' @ box_name b)
          else (case bd of
                  Malformed msg \<Rightarrow> Inl msg
                | Json rs \<Rightarrow> Inr (b\<lparr>readings := rs\<rparr>)))"

section \<open>Promise.all\<close>

text \<open>
  \<open>ps\<close> are the outcomes of the promises in the order of the array, \<open>order\<close> the
  indices of the promises in the order in which they settle. \<^verbatim>\<open>Promise.all\<close> rejects
  as soon as one promise rejects, with that promise's error; later settlements are
  ignored. It resolves, with the values in the order of the array, once every promise
  has resolved. While neither has happened it is pending (\<open>None\<close>).
\<close>

fun first_rejection :: "nat list \<Rightarrow> (string + 'a) list \<Rightarrow> string option" where
  "first_rejection [] ps = None"
| "first_rejection (i # later) ps =
     (if i < length ps
      then (case ps ! i of Inl msg \<Rightarrow> Some msg | Inr v \<Rightarrow> first_rejection later ps)
      else first_rejection later ps)"

definition Promise_all :: "nat list \<Rightarrow> (string + 'a) list \<Rightarrow> (string + 'a list) option" where
  "Promise_all order ps =
     (case first_rejection order ps of
        Some msg \<Rightarrow> Some (Inl msg)
      | None \<Rightarrow>
          if list_all (\<lambda>i. i \<in> set order) [0..<length ps]
          then Some (Inr (map projr ps))
          else None)"

section \<open>App: state and fetchData\<close>

text \<open>
  The three \<^verbatim>\<open>useState\<close> cells; the \<^verbatim>\<open>isMounted\<close> variable of the latest run of the
  effect and whether that run's interval timer is registered; the cycles (calls of
  \<^verbatim>\<open>fetchData\<close>, numbered as they start) of the latest run that still await their
  \<^verbatim>\<open>Promise.all\<close>; and the cycles still awaiting theirs that an earlier run of the
  effect started. \<^verbatim>\<open>isMounted\<close> is a local variable of each run of the effect, so the
  cycles of an earlier run see their own variable, which that run's cleanup has set to
  false.
\<close>

record app =
  boxes :: "box list"
  loading :: bool
  error :: "string option"
  isMounted :: bool
  interval :: bool
  pending :: "nat list"
  orphaned :: "nat list"
  started :: nat

text \<open>The state of the first render, before the effect has run.\<close>

definition App_initial :: app where
  "App_initial =
     \<lparr>boxes = [], loading = True, error = None,
      isMounted = False, interval = False, pending = [], orphaned = [], started = 0\<rparr>"

text \<open>The outcome of a cycle's \<^verbatim>\<open>await Promise.all(SENSEBOXES.map(...))\<close>.\<close>

definition cycle_outcome :: "nat list \<Rightarrow> network \<Rightarrow> (string + box list) option" where
  "cycle_outcome order net = Promise_all order (map (load_box net) SENSEBOXES)"

text \<open>The rest of \<^verbatim>\<open>fetchData\<close> after the await: the try branch and the catch branch.\<close>

definition fetchData_resume :: "app \<Rightarrow> string + box list \<Rightarrow> app" where
  "fetchData_resume s settled =
     (case settled of
        Inr results \<Rightarrow>
          if \<not> isMounted s then s
          else s\<lparr>boxes := results, error := None, loading := False\<rparr>
      | Inl msg \<Rightarrow>
          if \<not> isMounted s then s
          else s\<lparr>error := Some msg, loading := False\<rparr>)"

text \<open>
  One whole call of \<^verbatim>\<open>fetchData\<close> on the React state; a call whose
  \<^verbatim>\<open>Promise.all\<close> never settles changes nothing.
\<close>

definition fetchData :: "nat list \<Rightarrow> network \<Rightarrow> app \<Rightarrow> app" where
  "fetchData order net s =
     (case cycle_outcome order net of
        None \<Rightarrow> s
      | Some settled \<Rightarrow> fetchData_resume s settled)"


section \<open>App: the effect, the timer and the event loop\<close>

text \<open>
  The events the runtime delivers to the component: the effect runs
  (\<^verbatim>\<open>let isMounted = true; fetchData(); setInterval(fetchData, REFRESH_INTERVAL)\<close>);
  the interval timer fires; the \<^verbatim>\<open>Promise.all\<close> of cycle \<open>c\<close> settles, its fetches
  having completed in the given order with the given answers; the effect's cleanup runs
  (\<^verbatim>\<open>isMounted = false; clearInterval(interval)\<close>).
\<close>

datatype event = Effect | Tick | Settled nat "nat list" network | Cleanup

text \<open>\<^verbatim>\<open>fetchData()\<close> up to its await: the fetches are issued and the call is suspended.\<close>

definition fetchData_start :: "app \<Rightarrow> app" where
  "fetchData_start s = s\<lparr>pending := pending s @ [started s], started := started s + 1\<rparr>"

text \<open>
  The cleanup of the latest run of the effect. The cycles that run has pending keep
  its \<^verbatim>\<open>isMounted\<close>, now false, whatever a later run of the effect does.
\<close>

definition cleanup :: "app \<Rightarrow> app" where
  "cleanup s =
     s\<lparr>isMounted := False, interval := False,
       orphaned := orphaned s @ pending s, pending := []\<rparr>"

text \<open>
  React runs the cleanup of the previous run before it runs the effect again, and the
  new run has a variable \<^verbatim>\<open>isMounted\<close> and a timer of its own. A cycle of the latest
  run resumes with that run's \<^verbatim>\<open>isMounted\<close>; a cycle of an earlier run resumes with
  its own, which is false, and the state of the latest run is not touched.
\<close>

fun step :: "app \<Rightarrow> event \<Rightarrow> app" where
  "step s Effect = (fetchData_start ((cleanup s)\<lparr>isMounted := True\<rparr>))\<lparr>interval := True\<rparr>"
| "step s Tick = (if interval s then fetchData_start s else s)"
| "step s (Settled c order net) =
     (if cycle_outcome order net = None then s
      else if c \<in> set (pending s)
      then (fetchData order net s)\<lparr>pending := removeAll c (pending s)\<rparr>
      else if c \<in> set (orphaned s)
      then (fetchData order net (s\<lparr>isMounted := False\<rparr>))
             \<lparr>isMounted := isMounted s, orphaned := removeAll c (orphaned s)\<rparr>
      else s)"
| "step s Cleanup = cleanup s"

definition run :: "app \<Rightarrow> event list \<Rightarrow> app" where
  "run s events = foldl step s events"

section \<open>App: rendering\<close>

definition loading_text :: string where
  "loading_text = ''Lade Daten'' @ [CHR 0xE2, CHR 0x80, CHR 0xA6]"

text \<open>
  \<^verbatim>\<open>boxes.length ? boxes.map((box) => box.position)
               : SENSEBOXES.map((box) => box.position)\<close>
\<close>

definition mapBounds :: "app \<Rightarrow> (real \<times> real) list" where
  "mapBounds s =
     (if length (boxes s) \<noteq> 0 then map position (boxes s) else map position SENSEBOXES)"

record marker =
  marker_position :: "real \<times> real"
  marker_key :: nat
  tooltip :: string
  popup_box :: box

text \<open>
  What App renders: the two status lines (\<^verbatim>\<open>{loading && ...}\<close>, \<^verbatim>\<open>{error && ...}\<close>,
  where the empty string is falsy), the bounds and one marker for each element of
  \<^verbatim>\<open>boxes\<close>.
\<close>

record app_view =
  status_line :: "string option"
  error_line :: "string option"
  bounds :: "(real \<times> real) list"
  markers :: "marker list"

definition App_view :: "app \<Rightarrow> app_view" where
  "App_view s =
     \<lparr>status_line = (if loading s then Some loading_text else None),
      error_line = (case error s of None \<Rightarrow> None | Some msg \<Rightarrow> if msg = [] then None else Some msg),
      bounds = mapBounds s,
      markers = map (\<lambda>b. \<lparr>marker_position = position b, marker_key = box_id b,
                            tooltip = box_name b, popup_box = b\<rparr>) (boxes s)\<rparr>"

section \<open>Concrete data for the scenarios\<close>

text \<open>The two readings of Scenario A, with values chosen for the fields it leaves open.\<close>

definition reading_A0 :: reading where
  "reading_A0 = \<lparr>ts = ''2024-01-01T10:00:00Z'', temperature = Some (Num 20),
                   humidity = Some (Num 40), illu = Some (Num 100), light = Some (Num (3 / 2))\<rparr>"

definition reading_A1 :: reading where
  "reading_A1 = \<lparr>ts = ''2024-01-01T10:01:00Z'', temperature = Some (Num 22),
                   humidity = Some (Num 41), illu = Some (Num 110), light = Some (Num (5 / 4))\<rparr>"

definition box_A :: box where
  "box_A = (SENSEBOXES ! 0)\<lparr>readings := Some [reading_A0, reading_A1]\<rparr>"

text \<open>
  A stand-in for the library: every date formats to its pattern, and the numbers the
  scenarios print have their decimal text.
\<close>

definition text0 :: "jsnum \<Rightarrow> string" where
  "text0 v =
     (if v = Num 0 then ''0'' else if v = Num 20 then ''20'' else if v = Num 22 then ''22''
      else if v = Num 60 then ''60'' else if v = Num 120 then ''120''
      else if v = Num 280 then ''280'' else if v = NaN then ''NaN'' else ''n'')"

definition lib0 :: lib where
  "lib0 = \<lparr>format_iso = (\<lambda>t p. Some p), toFixed = (\<lambda>v d. text0 v), num_text = text0\<rparr>"

text \<open>
  A network in which the listed files answer with a status that is not ok (an HTTP 500)
  and every other file answers with the given readings.
\<close>

definition net_500 :: "string list \<Rightarrow> reading list \<Rightarrow> network" where
  "net_500 failing rs url =
     (if url \<in> set (map (\<lambda>f. BASE_URL @ ''/'' @ f) failing)
      then Response False (Json None)
      else Response True (Json (Some rs)))"

text \<open>
  The state of a mounted App after a cycle that loaded one reading for every box, with
  the next cycle started.
\<close>

definition state_old :: app where
  "state_old =
     \<lparr>boxes = map (\<lambda>b. b\<lparr>readings := Some [reading_A0]\<rparr>) SENSEBOXES,
      loading = False, error = None,
      isMounted = True, interval = True, pending = [1], orphaned = [], started = 2\<rparr>"

section \<open>Facts about rounding\<close>





















section \<open>Facts about Math.min and Math.max\<close>









section \<open>Facts about the helpers\<close>

lemma js_slice_neg:
  "0 < n \<Longrightarrow> js_slice (- int n) xs = drop (length xs - n) xs"
  by (auto simp: js_slice_def Let_def max_def nat_diff_distrib')

lemma length_js_slice_neg:
  "0 < n \<Longrightarrow> length (js_slice (- int n) xs) = min (length xs) n"
  by (simp add: js_slice_neg)

lemma js_slice_neg_suffix:
  "suffix (js_slice start xs) xs"
  by (simp add: js_slice_def Let_def suffix_drop)

lemma history_Some:
  "readings b = Some rs \<Longrightarrow> history b = drop (length rs - 20) rs"
  using js_slice_neg [of 20 rs] by (auto simp: history_def hasData_def)

lemma recent_Some:
  "readings b = Some rs \<Longrightarrow> recent b = rev (drop (length rs - 5) rs)"
  using js_slice_neg [of 5 rs] by (auto simp: recent_def hasData_def)

section \<open>Facts about Promise.all and fetchData\<close>

lemma first_rejection_prefix:
  assumes "\<forall>i\<in>set before. i < length ps \<longrightarrow> \<not> isl (ps ! i)"
    and "d < length ps" and "ps ! d = Inl msg"
  shows "first_rejection (before @ d # later) ps = Some msg"
  using assms by (induction before) (auto split: sum.splits)


lemma first_rejection_Some:
  assumes "first_rejection order ps = Some msg"
  shows "\<exists>i\<in>set order. i < length ps \<and> ps ! i = Inl msg"
  using assms by (induction order) (auto split: sum.splits if_splits)

lemma first_rejection_single:
  assumes "d \<in> set order" and "d < length ps" and "ps ! d = Inl msg"
    and "\<forall>i<length ps. i \<noteq> d \<longrightarrow> \<not> isl (ps ! i)"
  shows "first_rejection order ps = Some msg"
proof -
  obtain before later where o: "order = before @ d # later" and "d \<notin> set before"
    using split_list_first [OF assms(1)] by blast
  then have "\<forall>i\<in>set before. i < length ps \<longrightarrow> \<not> isl (ps ! i)"
    using assms(4) by auto
  then show ?thesis
    unfolding o using assms(2,3) by (rule first_rejection_prefix)
qed

lemma fetchData_rejected:
  assumes "isMounted s" and "first_rejection order (map (load_box net) SENSEBOXES) = Some msg"
  shows "fetchData order net s = s\<lparr>error := Some msg, loading := False\<rparr>"
  using assms by (simp add: fetchData_def cycle_outcome_def Promise_all_def fetchData_resume_def)


text \<open>
  The callback resolves exactly when the answer is an ok response whose body parses,
  and then to the box with the parsed readings.
\<close>

lemma load_box_Inr_iff:
  "load_box net b = Inr b' \<longleftrightarrow>
     (\<exists>rs. net (BASE_URL @ ''/'' @ box_file b) = Response True (Json rs) \<and> b' = b\<lparr>readings := rs\<rparr>)"
  by (auto simp: load_box_def split: fetched.splits body.splits)









section \<open>Facts about the event loop\<close>








lemma step_no_settle:
  assumes "e \<in> {Effect, Tick, Cleanup}"
  shows "boxes (step s e) = boxes s \<and> loading (step s e) = loading s \<and> error (step s e) = error s"
  using assms by (auto simp: fetchData_start_def cleanup_def split: if_splits)

lemma run_no_settle:
  assumes "\<forall>e\<in>set events. e \<in> {Effect, Tick, Cleanup}"
  shows "boxes (run s events) = boxes s \<and> loading (run s events) = loading s
       \<and> error (run s events) = error s"
  using assms unfolding run_def
proof (induction events arbitrary: s)
  case Nil
  then show ?case by simp
next
  case (Cons e events)
  then show ?case
    using step_no_settle [of e s] by simp
qed


text \<open>
  The run of the effect twice around a cleanup, as under React's strict mode: the
  cycle of the first run settles after the cleanup and is discarded, so the loading
  flag stays true until the cycle of the second run settles.
\<close>

lemma cycle_of_cleaned_up_run_is_discarded:
  "loading (run App_initial
              [Effect, Cleanup, Effect, Settled 0 [0, 1, 2, 3, 4] (net_500 [] [reading_A0])])
   \<and> boxes (run App_initial
              [Effect, Cleanup, Effect, Settled 0 [0, 1, 2, 3, 4] (net_500 [] [reading_A0])]) = []
   \<and> \<not> loading (run App_initial
              [Effect, Cleanup, Effect, Settled 1 [0, 1, 2, 3, 4] (net_500 [] [reading_A0])])"
  by (simp add: run_def App_initial_def fetchData_start_def cleanup_def fetchData_def
      cycle_outcome_def Promise_all_def fetchData_resume_def load_box_def net_500_def
      SENSEBOXES_def)

section \<open>Facts about rendering\<close>






section \<open>The history window\<close>

text \<open>
  C2 (as the code has it). The chart popup's \<open>history\<close> is the last 20 readings of
  the series in their original order, oldest first, and the list popup's \<open>recent\<close> is
  the last 5 readings in reverse order, newest first; each has length \<open>min L w\<close> for
  its own window size \<open>w\<close>, so a series shorter than the window is kept whole.
\<close>

theorem history_window_last_readings:
  assumes "readings b = Some rs"
  shows "length (history b) = min (length rs) 20
       \<and> history b = drop (length rs - 20) rs
       \<and> suffix (history b) rs
       \<and> length (recent b) = min (length rs) 5
       \<and> recent b = rev (drop (length rs - 5) rs)"
  using assms by (auto simp: history_Some recent_Some suffix_drop)

theorem history_window_last_readings_witness:
  "length (history box_A) = 2
   \<and> history box_A = [reading_A0, reading_A1]
   \<and> recent box_A = [reading_A1, reading_A0]"
  using history_window_last_readings [of box_A "[reading_A0, reading_A1]"]
  by (simp add: box_A_def)

text \<open>
  C2 as stated fails on the list popup: its window of the two readings of Scenario A is
  newest first, not in the original order.
\<close>

theorem recent_window_counterexample:
  "recent box_A = [reading_A1, reading_A0] \<and> recent box_A \<noteq> [reading_A0, reading_A1]"
  by (simp add: recent_def hasData_def js_slice_def box_A_def reading_A0_def reading_A1_def)

section \<open>A cycle in which one fetch fails\<close>

text \<open>
  C1 (as the code has it). When a cycle ends while App is mounted and the fetch of one
  device has failed while the fetches of all other devices succeed, \<open>fetchData\<close> leaves
  \<open>boxes\<close> as it was for every device: the failed device keeps its previous series, and
  so does every device whose fetch succeeded. The error state becomes the failed
  device's message and the loading flag becomes false.
\<close>

theorem failed_cycle_keeps_every_series:
  assumes "isMounted s"
    and "d < length SENSEBOXES"
    and "d \<in> set order"
    and "load_box net (SENSEBOXES ! d) = Inl msg"
    and "\<forall>i<length SENSEBOXES. i \<noteq> d \<longrightarrow> \<not> isl (load_box net (SENSEBOXES ! i))"
  shows "fetchData order net s = s\<lparr>error := Some msg, loading := False\<rparr>
       \<and> boxes (fetchData order net s) = boxes s"
proof -
  have "first_rejection order (map (load_box net) SENSEBOXES) = Some msg"
    using assms(2-5) by (intro first_rejection_single) auto
  then show ?thesis
    using assms(1) by (simp add: fetchData_rejected)
qed

theorem failed_cycle_keeps_every_series_witness:
  "fetchData [0, 1, 2, 3, 4] (net_500 [''sensebox3.json''] [reading_A0, reading_A1]) state_old =
     state_old\<lparr>error := Some ''Fehler beim Laden von SenseBox 3'', loading := False\<rparr>"
proof -
  let ?net = "net_500 [''sensebox3.json''] [reading_A0, reading_A1]"
  have mounted: "isMounted state_old"
    by (simp add: state_old_def)
  have d: "3 < length SENSEBOXES" "3 \<in> set [0, 1, 2, 3, 4 :: nat]"
    by (simp_all add: SENSEBOXES_def)
  have failed: "load_box ?net (SENSEBOXES ! 3) = Inl ''Fehler beim Laden von SenseBox 3''"
    by (simp add: load_box_def net_500_def SENSEBOXES_def BASE_URL_def)
  have others: "\<forall>i<length SENSEBOXES. i \<noteq> 3 \<longrightarrow> \<not> isl (load_box ?net (SENSEBOXES ! i))"
    by (simp add: load_box_def net_500_def SENSEBOXES_def BASE_URL_def less_Suc_eq
        numeral_eq_Suc All_less_Suc)
  show ?thesis
    using failed_cycle_keeps_every_series [OF mounted d failed others] by simp
qed

text \<open>
  C1 as stated fails: SenseBox 3 answers with an HTTP 500 and SenseBox 0 answers with
  two new readings, and after the cycle the entry of SenseBox 0 still holds its old
  series of one reading.
\<close>

theorem partial_merge_counterexample:
  "load_box (net_500 [''sensebox3.json''] [reading_A0, reading_A1]) (SENSEBOXES ! 0) =
      Inr ((SENSEBOXES ! 0)\<lparr>readings := Some [reading_A0, reading_A1]\<rparr>)
   \<and> load_box (net_500 [''sensebox3.json''] [reading_A0, reading_A1]) (SENSEBOXES ! 3) =
      Inl ''Fehler beim Laden von SenseBox 3''
   \<and> boxes (fetchData [0, 1, 2, 3, 4]
              (net_500 [''sensebox3.json''] [reading_A0, reading_A1]) state_old) ! 0 =
      (SENSEBOXES ! 0)\<lparr>readings := Some [reading_A0]\<rparr>"
  by (simp add: fetchData_def cycle_outcome_def Promise_all_def fetchData_resume_def
      load_box_def net_500_def SENSEBOXES_def BASE_URL_def state_old_def)

section \<open>A cycle in which several fetches fail\<close>

text \<open>
  C6 (as the code has it). The message published is that of the first fetch to fail in
  the cycle's completion order: when every fetch that completes before device \<open>d\<close>
  succeeds and the fetch of \<open>d\<close> fails, the cycle rejects with the message of \<open>d\<close>,
  whatever the fetches that complete later do. The outcome is a function of the
  completion order and the answers.
\<close>

theorem first_failure_message_wins:
  assumes "isMounted s"
    and "order = before @ d # later"
    and "d < length SENSEBOXES"
    and "load_box net (SENSEBOXES ! d) = Inl msg"
    and "\<forall>i\<in>set before. i < length SENSEBOXES \<longrightarrow> \<not> isl (load_box net (SENSEBOXES ! i))"
  shows "cycle_outcome order net = Some (Inl msg)
       \<and> fetchData order net s = s\<lparr>error := Some msg, loading := False\<rparr>"
proof -
  have "first_rejection order (map (load_box net) SENSEBOXES) = Some msg"
    unfolding assms(2) using assms(3-5) by (intro first_rejection_prefix) auto
  then show ?thesis
    using assms(1) by (simp add: fetchData_rejected cycle_outcome_def Promise_all_def)
qed

theorem first_failure_message_wins_witness:
  "error (fetchData [0, 3, 1, 2, 4]
            (net_500 [''sensebox1.json'', ''sensebox3.json''] [reading_A1]) state_old) =
     Some ''Fehler beim Laden von SenseBox 3''"
proof -
  let ?net = "net_500 [''sensebox1.json'', ''sensebox3.json''] [reading_A1]"
  have mounted: "isMounted state_old"
    by (simp add: state_old_def)
  have order: "[0, 3, 1, 2, 4] = [0] @ 3 # [1, 2, 4 :: nat]"
    by simp
  have d: "3 < length SENSEBOXES"
    by (simp add: SENSEBOXES_def)
  have failed: "load_box ?net (SENSEBOXES ! 3) = Inl ''Fehler beim Laden von SenseBox 3''"
    by (simp add: load_box_def net_500_def SENSEBOXES_def BASE_URL_def)
  have earlier: "\<forall>i\<in>set [0]. i < length SENSEBOXES \<longrightarrow> \<not> isl (load_box ?net (SENSEBOXES ! i))"
    by (simp add: load_box_def net_500_def SENSEBOXES_def BASE_URL_def)
  show ?thesis
    using first_failure_message_wins [OF mounted order d failed earlier] by simp
qed

text \<open>
  C6 as stated fails: SenseBox 3 and SenseBox 1 both fail and complete in this order;
  the message published is that of SenseBox 3, the first failure, and not that of
  SenseBox 1, the last.
\<close>

theorem last_failure_counterexample:
  "load_box (net_500 [''sensebox1.json'', ''sensebox3.json''] [reading_A1]) (SENSEBOXES ! 3) =
      Inl ''Fehler beim Laden von SenseBox 3''
   \<and> load_box (net_500 [''sensebox1.json'', ''sensebox3.json''] [reading_A1]) (SENSEBOXES ! 1) =
      Inl ''Fehler beim Laden von SenseBox 1''
   \<and> error (fetchData [3, 0, 1, 2, 4]
              (net_500 [''sensebox1.json'', ''sensebox3.json''] [reading_A1]) state_old) =
      Some ''Fehler beim Laden von SenseBox 3''"
  by (simp add: fetchData_def cycle_outcome_def Promise_all_def fetchData_resume_def
      load_box_def net_500_def SENSEBOXES_def BASE_URL_def state_old_def)

section \<open>The state before any cycle has settled\<close>

text \<open>
  C4 (as the code has it). Until a cycle settles, whatever the effect, the timer and
  the cleanup do, the loading flag is true, the error is null and \<open>boxes\<close> is the empty
  array: the state has no entry for any catalog device, no marker is rendered, and the
  map bounds are computed from the positions of the catalog.
\<close>

theorem initial_state_has_no_boxes:
  assumes "\<forall>e\<in>set events. e \<in> {Effect, Tick, Cleanup}"
  shows "loading (run App_initial events)
       \<and> error (run App_initial events) = None
       \<and> boxes (run App_initial events) = []
       \<and> markers (App_view (run App_initial events)) = []
       \<and> bounds (App_view (run App_initial events)) = map position SENSEBOXES"
  using run_no_settle [OF assms, of App_initial]
  by (simp add: App_initial_def App_view_def mapBounds_def)

theorem initial_state_has_no_boxes_witness:
  "loading (run App_initial [Effect, Tick]) \<and> boxes (run App_initial [Effect, Tick]) = []"
  using initial_state_has_no_boxes [of "[Effect, Tick]"] by simp

text \<open>
  C4 as stated fails: after the effect has started the first cycle the state holds no
  box at all, so not every catalog device has an entry.
\<close>

theorem initial_entries_counterexample:
  "boxes (run App_initial [Effect]) = []
   \<and> \<not> list_all (\<lambda>d. box_id d \<in> set (map box_id (boxes (run App_initial [Effect])))) SENSEBOXES"
  by (simp add: run_def App_initial_def fetchData_start_def cleanup_def SENSEBOXES_def)

section \<open>The plotted points\<close>




section \<open>A device without readings\<close>

text \<open>
  C5. For a box whose reading series is empty, \<open>latest\<close> is null and the history
  window is empty, and rendering its popup returns the paragraph that says no data are
  available; it does not throw, whatever the library functions do.
\<close>

theorem empty_series_renders_no_data:
  assumes "readings b = Some []"
  shows "latest b = None
       \<and> history b = []
       \<and> SenseboxPopup L cells rnd b =
           Inr (\<lparr>title = box_name b, body = NoData no_data_text\<rparr>, (\<lambda>k. None))"
  using assms by (simp add: latest_def history_def hasData_def SenseboxPopup_def)

theorem empty_series_renders_no_data_witness:
  "SenseboxPopup lib0 (\<lambda>k. None) (\<lambda>k. ''0.4fzyo82mvyr'') ((SENSEBOXES ! 0)\<lparr>readings := Some []\<rparr>) =
     Inr (\<lparr>title = ''SenseBox 0'', body = NoData no_data_text\<rparr>, (\<lambda>k. None))"
  using empty_series_renders_no_data
    [of "(SENSEBOXES ! 0)\<lparr>readings := Some []\<rparr>" lib0 "\<lambda>k. None" "\<lambda>k. ''0.4fzyo82mvyr''"]
  by (simp add: SENSEBOXES_def)

section \<open>Clearing the error\<close>



section \<open>The loading flag\<close>



section \<open>Ticks and pending cycles\<close>




section \<open>Rendering a chart twice\<close>




end
